theory Spec2Isabelle
  imports Complex_Main
begin

section \<open>Event study of disclosed trades: \<open>src/analysis/metrics.py\<close>\<close>

text \<open>
  The development embeds \<open>EventStudy.calculate_car\<close> and \<open>EventStudy.analyze_batch\<close>.
  Conventions of the embedding:
  \<^item> a Python \<open>float\<close> is an \<open>fval\<close>: a real number, one of the two infinities, or NaN.
    Finite arithmetic is exact (no rounding, no overflow to infinity, no signed zero);
    the special values follow IEEE 754;
  \<^item> a \<open>pd.Timestamp\<close> is its number of nanoseconds since the epoch, an integer between
    \<open>ts_min\<close> and \<open>ts_max\<close>; arithmetic that leaves this range raises;
  \<^item> an exception is a value \<open>Inl e\<close> of a sum type;
  \<^item> the price provider \<open>yf.download\<close> is a parameter: a function from the request to
    either an exception or the table of adjusted closes. Every request and every log
    record is written to a list of events that the functions return beside their result;
  \<^item> a table has a list of column names and a list of rows in index order; a row is its
    index label and its cell in each column. The index is ascending, as the provider
    returns it; the label slice \<open>.loc[a:b]\<close> is modelled for such an index only;
  \<^item> a Python \<open>str\<close> is a \<open>string\<close> of ASCII characters.
\<close>

subsection \<open>Python values and exceptions\<close>

datatype pyval = Str string | NoneVal | NanVal | IntVal int

datatype exn =
    OutOfBoundsDatetime
  | OutOfBoundsTimedelta
  | OverflowError
  | ValueError
  | KeyError
  | ProviderError

subsection \<open>Floats\<close>

datatype fval = Fin real | PInf | NInf | NaN

fun is_fin :: "fval \<Rightarrow> bool" where
  "is_fin (Fin r) = True"
| "is_fin v = False"

fun the_fin :: "fval \<Rightarrow> real" where
  "the_fin (Fin r) = r"
| "the_fin v = 0"

fun fneg :: "fval \<Rightarrow> fval" where
  "fneg (Fin a) = Fin (- a)"
| "fneg PInf = NInf"
| "fneg NInf = PInf"
| "fneg NaN = NaN"

fun fadd :: "fval \<Rightarrow> fval \<Rightarrow> fval" where
  "fadd (Fin a) (Fin b) = Fin (a + b)"
| "fadd NaN v = NaN"
| "fadd v NaN = NaN"
| "fadd PInf NInf = NaN"
| "fadd NInf PInf = NaN"
| "fadd PInf v = PInf"
| "fadd NInf v = NInf"
| "fadd v PInf = PInf"
| "fadd v NInf = NInf"

definition fsub :: "fval \<Rightarrow> fval \<Rightarrow> fval" where
  "fsub a b = fadd a (fneg b)"

definition inf_of_sign :: "real \<Rightarrow> fval" where
  "inf_of_sign s = (if s = 0 then NaN else if 0 < s then PInf else NInf)"

fun fmul :: "fval \<Rightarrow> fval \<Rightarrow> fval" where
  "fmul (Fin a) (Fin b) = Fin (a * b)"
| "fmul NaN v = NaN"
| "fmul v NaN = NaN"
| "fmul (Fin a) PInf = inf_of_sign a"
| "fmul (Fin a) NInf = inf_of_sign (- a)"
| "fmul PInf (Fin b) = inf_of_sign b"
| "fmul NInf (Fin b) = inf_of_sign (- b)"
| "fmul PInf PInf = PInf"
| "fmul NInf NInf = PInf"
| "fmul PInf NInf = NInf"
| "fmul NInf PInf = NInf"

fun fdiv :: "fval \<Rightarrow> fval \<Rightarrow> fval" where
  "fdiv (Fin a) (Fin b) = (if b = 0 then inf_of_sign a else Fin (a / b))"
| "fdiv NaN v = NaN"
| "fdiv v NaN = NaN"
| "fdiv (Fin a) v = Fin 0"
| "fdiv PInf (Fin b) = (if 0 \<le> b then PInf else NInf)"
| "fdiv NInf (Fin b) = (if 0 \<le> b then NInf else PInf)"
| "fdiv PInf PInf = NaN"
| "fdiv PInf NInf = NaN"
| "fdiv NInf PInf = NaN"
| "fdiv NInf NInf = NaN"

text \<open>\<open>Series.sum()\<close> with its default \<open>skipna=True\<close>: NaN entries are left out.\<close>

definition series_sum :: "fval list \<Rightarrow> fval" where
  "series_sum xs = foldl fadd (Fin 0) (filter (\<lambda>x. x \<noteq> NaN) xs)"

subsection \<open>Timestamps\<close>

type_synonym timestamp = int

definition ts_min :: timestamp where
  "ts_min = - (2 ^ 63) + 1"

definition ts_max :: timestamp where
  "ts_max = 2 ^ 63 - 1"

definition ns_per_day :: int where
  "ns_per_day = 86400000000000"

text \<open>\<open>timedelta(days=n)\<close>: Python refuses more than 999999999 days.\<close>

definition timedelta_days :: "int \<Rightarrow> exn + int" where
  "timedelta_days n =
     (if \<bar>n\<bar> \<le> 999999999 then Inr (n * ns_per_day) else Inl OverflowError)"

text \<open>
  \<open>Timestamp + timedelta\<close>: the \<open>timedelta\<close> is first made a \<open>pd.Timedelta\<close>, a number of
  nanoseconds in the same range as a timestamp (a little under 106752 days), and the
  result must be a representable timestamp.
\<close>

definition ts_add :: "timestamp \<Rightarrow> int \<Rightarrow> exn + timestamp" where
  "ts_add t d =
     (if d < ts_min \<or> ts_max < d then Inl OutOfBoundsTimedelta
      else let r = t + d in
        if ts_min \<le> r \<and> r \<le> ts_max then Inr r else Inl OutOfBoundsDatetime)"

subsection \<open>Strings\<close>

definition is_space :: "char \<Rightarrow> bool" where
  "is_space c = (of_char c \<in> set [9, 10, 11, 12, 13, 28, 29, 30, 31, 32 :: nat])"

definition strip :: "string \<Rightarrow> string" where
  "strip s = rev (dropWhile is_space (rev (dropWhile is_space s)))"

definition upper_char :: "char \<Rightarrow> char" where
  "upper_char c =
     (let n = (of_char c :: nat) in if 97 \<le> n \<and> n \<le> 122 then char_of (n - 32) else c)"

definition upper :: "string \<Rightarrow> string" where
  "upper s = map upper_char s"

text \<open>\<open>str.replace(a, b)\<close> for one-character \<open>a\<close> and \<open>b\<close>.\<close>

definition replace_char :: "char \<Rightarrow> char \<Rightarrow> string \<Rightarrow> string" where
  "replace_char a b s = map (\<lambda>c. if c = a then b else c) s"

definition TICKER_MAP :: "(string \<times> string) list" where
  "TICKER_MAP = [(''$BTC'', ''BTC-USD''), (''VWUSX:US'', ''VWUSX''), (''XSP'', ''SPY'')]"

definition dict_get :: "(string \<times> string) list \<Rightarrow> string \<Rightarrow> string \<Rightarrow> string" where
  "dict_get m k d = (case map_of m k of Some v \<Rightarrow> v | None \<Rightarrow> d)"

text \<open>Lines 37 and 38: the ticker as it is sent to the provider.\<close>

definition sanitize :: "string \<Rightarrow> string" where
  "sanitize t = replace_char CHR ''.'' CHR ''-'' (replace_char CHR ''/'' CHR ''-'' (upper (strip t)))"

definition remap :: "string \<Rightarrow> string" where
  "remap t = dict_get TICKER_MAP t t"

text \<open>Line 33: the tickers refused before any other work.\<close>

definition placeholders :: "string list" where
  "placeholders = [''--'', ''NaN'', '''']"

subsection \<open>Tables of prices and returns\<close>

type_synonym row = "timestamp \<times> (string \<Rightarrow> fval)"

record frame =
  columns :: "string list"
  rows :: "row list"

text \<open>\<open>DataFrame.empty\<close>: an axis of length zero.\<close>

definition frame_empty :: "frame \<Rightarrow> bool" where
  "frame_empty f = (rows f = [] \<or> columns f = [])"

text \<open>The day-over-day change of one cell: \<open>cur / prev - 1\<close>.\<close>

definition pct :: "fval \<Rightarrow> fval \<Rightarrow> fval" where
  "pct prev cur = fsub (fdiv cur prev) (Fin 1)"

fun pct_rows :: "row \<Rightarrow> row list \<Rightarrow> row list" where
  "pct_rows prev [] = []"
| "pct_rows prev (r # rs) = (fst r, \<lambda>c. pct (snd prev c) (snd r c)) # pct_rows r rs"

text \<open>\<open>pct_change(fill_method=None)\<close>: the first row has no previous row and is all NaN.\<close>

definition pct_change :: "frame \<Rightarrow> frame" where
  "pct_change f =
     f\<lparr>rows := (case rows f of [] \<Rightarrow> [] | r # rs \<Rightarrow> (fst r, \<lambda>c. NaN) # pct_rows r rs)\<rparr>"

text \<open>\<open>dropna()\<close>: a row stays when no cell of it is NaN.\<close>

definition row_complete :: "string list \<Rightarrow> row \<Rightarrow> bool" where
  "row_complete cols r = list_all (\<lambda>c. snd r c \<noteq> NaN) cols"

definition dropna :: "frame \<Rightarrow> frame" where
  "dropna f = f\<lparr>rows := filter (row_complete (columns f)) (rows f)\<rparr>"

text \<open>Line 60.\<close>

definition returns_of :: "frame \<Rightarrow> frame" where
  "returns_of data = dropna (pct_change data)"

text \<open>\<open>.loc[a:b]\<close> on an ascending index: the rows labelled from \<open>a\<close> to \<open>b\<close>, both included.\<close>

definition loc_slice :: "timestamp \<Rightarrow> timestamp \<Rightarrow> frame \<Rightarrow> frame" where
  "loc_slice a b f = f\<lparr>rows := filter (\<lambda>r. a \<le> fst r \<and> fst r \<le> b) (rows f)\<rparr>"

definition column_values :: "frame \<Rightarrow> string \<Rightarrow> fval list" where
  "column_values f c = map (\<lambda>r. snd r c) (rows f)"

subsection \<open>Linear regression\<close>

text \<open>
  \<open>LinearRegression().fit(X, y)\<close> with one feature and the defaults (intercept fitted, no
  penalty): the library refuses non-finite input and no samples, centres both columns
  and solves the least-squares problem, taking the solution of least norm when the
  feature is constant.
\<close>

fun finite_vals :: "fval list \<Rightarrow> real list option" where
  "finite_vals [] = Some []"
| "finite_vals (v # vs) =
     (case v of
        Fin r \<Rightarrow> (case finite_vals vs of Some rs \<Rightarrow> Some (r # rs) | None \<Rightarrow> None)
      | _ \<Rightarrow> None)"

definition mean :: "real list \<Rightarrow> real" where
  "mean xs = sum_list xs / real (length xs)"

definition ols :: "real list \<Rightarrow> real list \<Rightarrow> real \<times> real" where
  "ols xs ys =
     (let mx = mean xs; my = mean ys;
          sxx = (\<Sum>x\<leftarrow>xs. (x - mx) * (x - mx));
          sxy = (\<Sum>(x, y)\<leftarrow>zip xs ys. (x - mx) * (y - my));
          beta = (if sxx = 0 then 0 else sxy / sxx);
          alpha = my - beta * mx
      in (alpha, beta))"

definition linreg_fit :: "fval list \<Rightarrow> fval list \<Rightarrow> exn + real \<times> real" where
  "linreg_fit X y =
     (case (finite_vals X, finite_vals y) of
        (Some xs, Some ys) \<Rightarrow>
          if xs = [] \<or> length xs \<noteq> length ys then Inl ValueError else Inr (ols xs ys)
      | _ \<Rightarrow> Inl ValueError)"

subsection \<open>The steps of \<open>calculate_car\<close>\<close>

datatype event =
    Fetch "string list" timestamp timestamp
  | LogError string exn
  | LogBatch nat

type_synonym provider = "string list \<Rightarrow> timestamp \<Rightarrow> timestamp \<Rightarrow> exn + frame"

text \<open>Lines 41 to 43: the estimation window and the end of the event window.\<close>

definition event_windows :: "timestamp \<Rightarrow> int \<Rightarrow> exn + timestamp \<times> timestamp \<times> timestamp" where
  "event_windows trade_date window_days =
     (case ts_add trade_date (- (200 * ns_per_day)) of
        Inl e \<Rightarrow> Inl e
      | Inr est_start \<Rightarrow>
     (case ts_add trade_date (- (10 * ns_per_day)) of
        Inl e \<Rightarrow> Inl e
      | Inr est_end \<Rightarrow>
     (case timedelta_days window_days of
        Inl e \<Rightarrow> Inl e
      | Inr d \<Rightarrow>
     (case ts_add trade_date d of
        Inl e \<Rightarrow> Inl e
      | Inr evt_end \<Rightarrow> Inr (est_start, est_end, evt_end)))))"

text \<open>
  Lines 66 to 80: the market model. \<open>Inr None\<close> is the early \<open>return None\<close>, \<open>Inl\<close> an
  exception of the fit.
\<close>

definition market_model ::
  "string \<Rightarrow> string \<Rightarrow> timestamp \<Rightarrow> timestamp \<Rightarrow> frame \<Rightarrow> exn + (real \<times> real) option" where
  "market_model benchmark ticker est_start est_end returns =
     (let est_data = loc_slice est_start est_end returns in
      if frame_empty est_data \<or> benchmark \<notin> set (columns est_data)
           \<or> ticker \<notin> set (columns est_data)
      then Inr None
      else (case linreg_fit (column_values est_data benchmark) (column_values est_data ticker) of
              Inl e \<Rightarrow> Inl e
            | Inr m \<Rightarrow> Inr (Some m)))"

text \<open>Lines 83 to 98: the cumulative abnormal return over the event window.\<close>

definition abnormal_return :: "string \<Rightarrow> string \<Rightarrow> real \<Rightarrow> real \<Rightarrow> row \<Rightarrow> fval" where
  "abnormal_return benchmark ticker alpha beta r =
     fsub (snd r ticker) (fadd (Fin alpha) (fmul (Fin beta) (snd r benchmark)))"

definition aggregate ::
  "string \<Rightarrow> string \<Rightarrow> real \<Rightarrow> real \<Rightarrow> timestamp \<Rightarrow> timestamp \<Rightarrow> frame \<Rightarrow> fval option" where
  "aggregate benchmark ticker alpha beta trade_date evt_end returns =
     (let evt_data = loc_slice trade_date evt_end returns in
      if frame_empty evt_data then None
      else Some (series_sum (map (abnormal_return benchmark ticker alpha beta) (rows evt_data))))"

text \<open>
  Lines 46 to 98, the body of the \<open>try\<close>: the result or the exception, and the requests
  sent to the provider.
\<close>

definition try_body ::
  "provider \<Rightarrow> string \<Rightarrow> string \<Rightarrow> timestamp \<Rightarrow> timestamp \<Rightarrow> timestamp \<Rightarrow> timestamp
     \<Rightarrow> (exn + fval option) \<times> event list" where
  "try_body download benchmark ticker trade_date est_start est_end evt_end =
     (case ts_add evt_end (5 * ns_per_day) of
        Inl e \<Rightarrow> (Inl e, [])
      | Inr fetch_end \<Rightarrow>
          (let request = [Fetch [ticker, benchmark] est_start fetch_end] in
           case download [ticker, benchmark] est_start fetch_end of
             Inl e \<Rightarrow> (Inl e, request)
           | Inr data \<Rightarrow>
               (let returns = returns_of data in
                if length (rows returns) < 50 then (Inr None, request)
                else (case market_model benchmark ticker est_start est_end returns of
                        Inl e \<Rightarrow> (Inl e, request)
                      | Inr None \<Rightarrow> (Inr None, request)
                      | Inr (Some (alpha, beta)) \<Rightarrow>
                          (Inr (aggregate benchmark ticker alpha beta trade_date evt_end returns),
                           request)))))"

text \<open>Lines 45 to 101: the \<open>try\<close> with its handler, which logs and returns \<open>None\<close>.\<close>

definition guarded ::
  "provider \<Rightarrow> string \<Rightarrow> string \<Rightarrow> timestamp \<Rightarrow> timestamp \<Rightarrow> timestamp \<Rightarrow> timestamp
     \<Rightarrow> (exn + fval option) \<times> event list" where
  "guarded download benchmark ticker trade_date est_start est_end evt_end =
     (case try_body download benchmark ticker trade_date est_start est_end evt_end of
        (Inl e, evs) \<Rightarrow> (Inr None, evs @ [LogError ticker e])
      | (Inr r, evs) \<Rightarrow> (Inr r, evs))"

text \<open>
  \<open>calculate_car(ticker, trade_date, window_days)\<close> of an \<open>EventStudy\<close> whose benchmark is
  \<open>benchmark\<close>. A \<open>trade_date\<close> for which \<open>pd.isna\<close> holds is \<open>None\<close>.
\<close>

definition calculate_car ::
  "provider \<Rightarrow> string \<Rightarrow> pyval \<Rightarrow> timestamp option \<Rightarrow> int \<Rightarrow> (exn + fval option) \<times> event list" where
  "calculate_car download benchmark ticker trade_date window_days =
     (case trade_date of
        None \<Rightarrow> (Inr None, [])
      | Some td \<Rightarrow>
          (case ticker of
             Str raw \<Rightarrow>
               if raw \<in> set placeholders then (Inr None, [])
               else
                 (let symbol = remap (sanitize raw) in
                  case event_windows td window_days of
                    Inl e \<Rightarrow> (Inl e, [])
                  | Inr (est_start, est_end, evt_end) \<Rightarrow>
                      guarded download benchmark symbol td est_start est_end evt_end)
           | _ \<Rightarrow> (Inr None, [])))"

subsection \<open>The batch: \<open>analyze_batch\<close>\<close>

text \<open>
  The table of trades: its rows, of which \<open>analyze_batch\<close> reads the two fields below,
  and its column \<open>car_30d\<close> when it has one.
\<close>

record trade =
  ticker :: pyval
  transaction_date :: "timestamp option"

record trades_frame =
  trades :: "trade list"
  car_30d :: "fval option list option"

text \<open>
  \<open>df.apply(f, axis=1)\<close>: the rows in order; an exception of one call ends the loop and
  leaves it.
\<close>

fun apply_rows :: "provider \<Rightarrow> string \<Rightarrow> trade list \<Rightarrow> (exn + fval option list) \<times> event list" where
  "apply_rows download benchmark [] = (Inr [], [])"
| "apply_rows download benchmark (r # rs) =
     (case calculate_car download benchmark (ticker r) (transaction_date r) 30 of
        (Inl e, evs) \<Rightarrow> (Inl e, evs)
      | (Inr v, evs) \<Rightarrow>
          (case apply_rows download benchmark rs of
             (Inl e, evs') \<Rightarrow> (Inl e, evs @ evs')
           | (Inr vs, evs') \<Rightarrow> (Inr (v # vs), evs @ evs')))"

definition analyze_batch :: "provider \<Rightarrow> string \<Rightarrow> trades_frame \<Rightarrow> (exn + trades_frame) \<times> event list" where
  "analyze_batch download benchmark df =
     (if trades df = [] then (Inr df, [])
      else (case apply_rows download benchmark (trades df) of
              (Inl e, evs) \<Rightarrow> (Inl e, LogBatch (length (trades df)) # evs)
            | (Inr vs, evs) \<Rightarrow>
                (Inr (df\<lparr>car_30d := Some vs\<rparr>), LogBatch (length (trades df)) # evs)))"

subsection \<open>The prefix test of the metadata lookup\<close>

text \<open>
  \<open>src/enrichment/asset_metadata.py\<close>, line 47: \<open>get_asset_info\<close> skips a sanitized
  ticker that starts with \<open>$\<close> or with a digit. \<open>calculate_car\<close> has no such test.
\<close>

definition is_digit :: "char \<Rightarrow> bool" where
  "is_digit c = (48 \<le> (of_char c :: nat) \<and> (of_char c :: nat) \<le> 57)"

definition dollar_or_digit_prefix :: "string \<Rightarrow> bool" where
  "dollar_or_digit_prefix t = (take 1 t = ''$'' \<or> (0 < length t \<and> is_digit (t ! 0)))"

subsection \<open>Sample data\<close>

text \<open>
  A provider that answers every request with 61 daily rows, from 40 days before the
  epoch to 20 days after it, every price 1 in every requested column; a provider that
  answers with three rows, the first price 0; and a provider that always fails. The
  trade date of the examples is the epoch itself.
\<close>

definition short_frame :: "string list \<Rightarrow> frame" where
  "short_frame cols =
     \<lparr>columns = cols,
      rows = [(- 30 * ns_per_day, \<lambda>c. Fin 0), (- 29 * ns_per_day, \<lambda>c. Fin 1),
              (- 28 * ns_per_day, \<lambda>c. Fin 1)]\<rparr>"

definition short_provider :: provider where
  "short_provider symbols start stop = Inr (short_frame symbols)"

definition flat_frame :: "string list \<Rightarrow> frame" where
  "flat_frame cols =
     \<lparr>columns = cols, rows = map (\<lambda>k. ((int k - 40) * ns_per_day, \<lambda>c. Fin 1)) [0..<61]\<rparr>"

definition flat_provider :: provider where
  "flat_provider symbols start stop = Inr (flat_frame symbols)"

definition failing_provider :: provider where
  "failing_provider symbols start stop = Inl ProviderError"

text \<open>
  Prices with a gap: four daily rows from the epoch on, the second price of \<open>B\<close>
  missing.
\<close>

definition gap_frame :: frame where
  "gap_frame =
     \<lparr>columns = [''A'', ''B''],
      rows = [(0, \<lambda>c. if c = ''A'' then Fin 1 else Fin 1),
              (ns_per_day, \<lambda>c. if c = ''A'' then Fin 2 else NaN),
              (2 * ns_per_day, \<lambda>c. if c = ''A'' then Fin 4 else Fin 2),
              (3 * ns_per_day, \<lambda>c. if c = ''A'' then Fin 8 else Fin 4)]\<rparr>"

text \<open>
  A provider whose benchmark alternates between the prices 1 and 2, and whose other
  columns follow the benchmark until the day before the epoch and stand at three times
  the benchmark from the epoch on.
\<close>

definition trend_price :: "nat \<Rightarrow> string \<Rightarrow> fval" where
  "trend_price k c =
     Fin ((if even k then 1 else 2) * (if c \<noteq> ''^GSPC'' \<and> 40 \<le> k then 3 else 1))"

definition trend_frame :: "string list \<Rightarrow> frame" where
  "trend_frame cols =
     \<lparr>columns = cols, rows = map (\<lambda>k. ((int k - 40) * ns_per_day, trend_price k)) [0..<61]\<rparr>"

definition trend_provider :: provider where
  "trend_provider symbols start stop = Inr (trend_frame symbols)"

text \<open>
  The same prices with one quote of zero, in every column, in row \<open>k0\<close>: the returns of
  the next row are infinite in every column.
\<close>

definition zero_price :: "nat \<Rightarrow> nat \<Rightarrow> string \<Rightarrow> fval" where
  "zero_price k0 k c = (if k = k0 then Fin 0 else trend_price k c)"

definition zero_frame :: "nat \<Rightarrow> string list \<Rightarrow> frame" where
  "zero_frame k0 cols =
     \<lparr>columns = cols, rows = map (\<lambda>k. ((int k - 40) * ns_per_day, zero_price k0 k)) [0..<61]\<rparr>"

definition zero_provider :: "nat \<Rightarrow> provider" where
  "zero_provider k0 symbols start stop = Inr (zero_frame k0 symbols)"

text \<open>Four trades: two that can be evaluated and two that are refused.\<close>

definition sample_trades :: "trade list" where
  "sample_trades =
     [\<lparr>ticker = Str ''AAPL'', transaction_date = Some 0\<rparr>,
      \<lparr>ticker = Str ''--'', transaction_date = Some 0\<rparr>,
      \<lparr>ticker = NanVal, transaction_date = None\<rparr>,
      \<lparr>ticker = Str ''brk/b'', transaction_date = Some 0\<rparr>]"

section \<open>Validation of the trade\<close>

lemma event_windows_epoch:
  "event_windows 0 30 = Inr (- 17280000000000000, - 864000000000000, 2592000000000000)"
  by (simp add: event_windows_def ts_add_def timedelta_days_def ts_min_def ts_max_def
      ns_per_day_def)

lemma fetch_end_epoch: "ts_add 2592000000000000 (5 * ns_per_day) = Inr 3024000000000000"
  by (simp add: ts_add_def ts_min_def ts_max_def ns_per_day_def)

text \<open>
  C7. A trade whose date is undefined, or whose ticker is not a string or is one of the
  tokens \<open>--\<close>, \<open>NaN\<close> and the empty string, yields \<open>None\<close>, and no request reaches
  the provider.
\<close>

theorem calculate_car_rejects_before_fetch:
  assumes "trade_date = None \<or> (\<forall>s. tkr \<noteq> Str s)
             \<or> tkr \<in> {Str ''--'', Str ''NaN'', Str ''''}"
  shows "calculate_car download benchmark tkr trade_date window_days = (Inr None, [])"
proof (cases trade_date)
  case None
  then show ?thesis by (simp add: calculate_car_def)
next
  case (Some td)
  with assms have "(\<forall>s. tkr \<noteq> Str s) \<or> tkr \<in> {Str ''--'', Str ''NaN'', Str ''''}"
    by simp
  then show ?thesis
    using Some by (cases tkr) (auto simp: calculate_car_def placeholders_def)
qed

theorem calculate_car_rejects_before_fetch_witness:
  "calculate_car flat_provider ''^GSPC'' (Str ''AAPL'') None 30 = (Inr None, [])
   \<and> calculate_car flat_provider ''^GSPC'' NanVal (Some 0) 30 = (Inr None, [])
   \<and> calculate_car flat_provider ''^GSPC'' (Str ''--'') (Some 0) 30 = (Inr None, [])
   \<and> calculate_car flat_provider ''^GSPC'' (Str ''NaN'') (Some 0) 30 = (Inr None, [])
   \<and> calculate_car flat_provider ''^GSPC'' (Str '''') (Some 0) 30 = (Inr None, [])"
  using calculate_car_rejects_before_fetch [of None "Str ''AAPL''" flat_provider "''^GSPC''" 30]
    calculate_car_rejects_before_fetch [of "Some 0" NanVal flat_provider "''^GSPC''" 30]
    calculate_car_rejects_before_fetch [of "Some 0" "Str ''--''" flat_provider "''^GSPC''" 30]
    calculate_car_rejects_before_fetch [of "Some 0" "Str ''NaN''" flat_provider "''^GSPC''" 30]
    calculate_car_rejects_before_fetch [of "Some 0" "Str ''''" flat_provider "''^GSPC''" 30]
  by simp

text \<open>
  C10 does not hold for one of its examples: \<open>nan\<close> is sanitized to \<open>NAN\<close>, which is
  neither one of the three tokens nor the empty string.
\<close>

theorem nan_is_no_placeholder_counterexample:
  "remap (sanitize ''nan'') = ''NAN'' \<and> ''NAN'' \<notin> set placeholders"
  by code_simp

text \<open>
  C10, amended. The test against \<open>--\<close>, \<open>NaN\<close> and the empty string reads the ticker as it
  was given, and nothing tests it again after trimming and upper-casing. A ticker that
  is none of the three tokens as given is therefore sent to the provider in its
  sanitized form, whatever that form is: \<open>nan\<close> as \<open>NAN\<close>, the token \<open>--\<close> between
  blanks as \<open>--\<close>, and a ticker of blanks as the empty string.
\<close>

theorem placeholder_test_reads_raw_ticker:
  assumes "raw \<notin> set placeholders"
    and "event_windows td window_days = Inr (est_start, est_end, evt_end)"
    and "ts_add evt_end (5 * ns_per_day) = Inr fetch_end"
  shows "take 1 (snd (calculate_car download benchmark (Str raw) (Some td) window_days))
           = [Fetch [remap (sanitize raw), benchmark] est_start fetch_end]
         \<and> set [''nan'', '' -- '', ''   ''] \<inter> set placeholders = {}
         \<and> map (\<lambda>t. remap (sanitize t)) [''nan'', '' -- '', ''   ''] = [''NAN'', ''--'', '''']"
proof -
  have "take 1 (snd (calculate_car download benchmark (Str raw) (Some td) window_days))
          = [Fetch [remap (sanitize raw), benchmark] est_start fetch_end]"
    using assms
    by (simp add: calculate_car_def guarded_def try_body_def Let_def
        split: sum.splits option.splits prod.splits)
  moreover have "set [''nan'', '' -- '', ''   ''] \<inter> set placeholders = {}"
    by (simp add: placeholders_def)
  moreover have "map (\<lambda>t. remap (sanitize t)) [''nan'', '' -- '', ''   ''] = [''NAN'', ''--'', '''']"
    by code_simp
  ultimately show ?thesis by simp
qed

theorem placeholder_test_reads_raw_ticker_witness:
  "'' -- '' \<notin> set placeholders
   \<and> event_windows 0 30 = Inr (- 17280000000000000, - 864000000000000, 2592000000000000)
   \<and> ts_add 2592000000000000 (5 * ns_per_day) = Inr 3024000000000000
   \<and> take 1 (snd (calculate_car failing_provider ''^GSPC'' (Str '' -- '') (Some 0) 30))
         = [Fetch [''--'', ''^GSPC''] (- 17280000000000000) 3024000000000000]"
proof -
  have p: "'' -- '' \<notin> set placeholders" by (simp add: placeholders_def)
  have s: "remap (sanitize '' -- '') = ''--''" by code_simp
  show ?thesis
    using placeholder_test_reads_raw_ticker [OF p event_windows_epoch fetch_end_epoch,
        of failing_provider "''^GSPC''"] p event_windows_epoch fetch_end_epoch s
    by simp
qed

text \<open>
  C8 does not hold as stated: \<open>calculate_car\<close> does not look at the first character of the
  symbol. \<open>1INCH-USD\<close> starts with a digit and \<open>$ETH\<close> with the currency marker, the
  table remaps neither, and with a provider that has prices for them the result is a
  number.
\<close>

theorem prefixed_ticker_counterexample:
  "dollar_or_digit_prefix (sanitize ''1INCH-USD'')
   \<and> remap (sanitize ''1INCH-USD'') = ''1INCH-USD''
   \<and> calculate_car flat_provider ''^GSPC'' (Str ''1INCH-USD'') (Some 0) 30
       = (Inr (Some (Fin 0)),
          [Fetch [''1INCH-USD'', ''^GSPC''] (- 17280000000000000) 3024000000000000])
   \<and> dollar_or_digit_prefix (sanitize ''$ETH'')
   \<and> remap (sanitize ''$ETH'') = ''$ETH''
   \<and> calculate_car flat_provider ''^GSPC'' (Str ''$ETH'') (Some 0) 30
       = (Inr (Some (Fin 0)),
          [Fetch [''$ETH'', ''^GSPC''] (- 17280000000000000) 3024000000000000])"
  by code_simp

text \<open>
  C8, amended. With representable windows, a trade is answered without a request to
  the provider exactly when its ticker is not a string or is, as given, one of \<open>--\<close>,
  \<open>NaN\<close> and the empty string. Every other ticker is sanitized and remapped, and the
  result depends on the ticker through the remapped symbol only: \<open>$BTC\<close> is evaluated
  as \<open>BTC-USD\<close> is.
\<close>

theorem rejection_reads_raw_ticker_only:
  assumes "event_windows td window_days = Inr (est_start, est_end, evt_end)"
    and "ts_add evt_end (5 * ns_per_day) = Inr fetch_end"
  shows "(snd (calculate_car download benchmark tkr (Some td) window_days) = []
            \<longleftrightarrow> (\<forall>s. tkr \<noteq> Str s) \<or> tkr \<in> {Str ''--'', Str ''NaN'', Str ''''})
         \<and> (\<forall>raw raw'. raw \<notin> set placeholders \<and> raw' \<notin> set placeholders
               \<and> remap (sanitize raw) = remap (sanitize raw')
             \<longrightarrow> calculate_car download benchmark (Str raw) (Some td) window_days
                 = calculate_car download benchmark (Str raw') (Some td) window_days)"
proof -
  have fetched: "snd (calculate_car download benchmark (Str raw) (Some td) window_days) \<noteq> []"
    if "raw \<notin> set placeholders" for raw
    using that assms
    by (simp add: calculate_car_def guarded_def try_body_def Let_def
        split: sum.splits option.splits prod.splits)
  have "snd (calculate_car download benchmark tkr (Some td) window_days) = []
          \<longleftrightarrow> (\<forall>s. tkr \<noteq> Str s) \<or> tkr \<in> {Str ''--'', Str ''NaN'', Str ''''}"
  proof (cases tkr)
    case (Str raw)
    show ?thesis
    proof (cases "raw \<in> set placeholders")
      case True
      then show ?thesis using Str by (auto simp: calculate_car_def placeholders_def)
    next
      case False
      then show ?thesis using Str fetched [OF False] by (auto simp: placeholders_def)
    qed
  qed (simp_all add: calculate_car_def)
  moreover have "calculate_car download benchmark (Str raw) (Some td) window_days
                 = calculate_car download benchmark (Str raw') (Some td) window_days"
    if "raw \<notin> set placeholders" "raw' \<notin> set placeholders"
      "remap (sanitize raw) = remap (sanitize raw')" for raw raw'
    using that by (simp add: calculate_car_def)
  ultimately show ?thesis by blast
qed

theorem rejection_reads_raw_ticker_only_witness:
  "event_windows 0 30 = Inr (- 17280000000000000, - 864000000000000, 2592000000000000)
   \<and> ts_add 2592000000000000 (5 * ns_per_day) = Inr 3024000000000000
   \<and> snd (calculate_car flat_provider ''^GSPC'' (Str ''$ETH'') (Some 0) 30) \<noteq> []
   \<and> ''$btc '' \<notin> set placeholders \<and> ''BTC-USD'' \<notin> set placeholders
   \<and> remap (sanitize ''$btc '') = ''BTC-USD'' \<and> remap (sanitize ''BTC-USD'') = ''BTC-USD''
   \<and> calculate_car flat_provider ''^GSPC'' (Str ''$btc '') (Some 0) 30
       = calculate_car flat_provider ''^GSPC'' (Str ''BTC-USD'') (Some 0) 30"
proof -
  have p: "''$btc '' \<notin> set placeholders" "''BTC-USD'' \<notin> set placeholders"
    by (simp_all add: placeholders_def)
  have s: "remap (sanitize ''$btc '') = ''BTC-USD''" "remap (sanitize ''BTC-USD'') = ''BTC-USD''"
    by code_simp+
  note t = rejection_reads_raw_ticker_only [OF event_windows_epoch fetch_end_epoch,
      where download = flat_provider and benchmark = "''^GSPC''"]
  have "snd (calculate_car flat_provider ''^GSPC'' (Str ''$ETH'') (Some 0) 30) \<noteq> []"
    using t [of "Str ''$ETH''", THEN conjunct1] by simp
  moreover have "calculate_car flat_provider ''^GSPC'' (Str ''$btc '') (Some 0) 30
       = calculate_car flat_provider ''^GSPC'' (Str ''BTC-USD'') (Some 0) 30"
    using t [of NoneVal, THEN conjunct2, rule_format, of "''$btc ''" "''BTC-USD''"] p s
    by simp
  ultimately show ?thesis
    using event_windows_epoch fetch_end_epoch p s by simp
qed


section \<open>The floor of 50 observations\<close>

text \<open>
  C6. When the returns computed from the fetched prices have fewer than 50 rows, the
  result is \<open>None\<close> whatever the ticker, and the only event is the request itself: the
  test precedes the fit, so a fit that would raise on these returns leaves no log record.
\<close>

theorem short_history_yields_none:
  assumes "event_windows td window_days = Inr (est_start, est_end, evt_end)"
    and "ts_add evt_end (5 * ns_per_day) = Inr fetch_end"
    and "download [remap (sanitize raw), benchmark] est_start fetch_end = Inr data"
    and "length (rows (returns_of data)) < 50"
  shows "calculate_car download benchmark (Str raw) (Some td) window_days
           = (Inr None,
              if raw \<in> set placeholders then []
              else [Fetch [remap (sanitize raw), benchmark] est_start fetch_end])"
  using assms by (simp add: calculate_car_def guarded_def try_body_def Let_def)

theorem short_history_yields_none_witness:
  "event_windows 0 30 = Inr (- 17280000000000000, - 864000000000000, 2592000000000000)
   \<and> ts_add 2592000000000000 (5 * ns_per_day) = Inr 3024000000000000
   \<and> short_provider [remap (sanitize ''AAPL''), ''^GSPC''] (- 17280000000000000) 3024000000000000
       = Inr (short_frame [''AAPL'', ''^GSPC''])
   \<and> length (rows (returns_of (short_frame [''AAPL'', ''^GSPC'']))) = 2
   \<and> market_model ''^GSPC'' ''AAPL'' (- 17280000000000000) (- 864000000000000)
         (returns_of (short_frame [''AAPL'', ''^GSPC''])) = Inl ValueError
   \<and> calculate_car short_provider ''^GSPC'' (Str ''AAPL'') (Some 0) 30
       = (Inr None, [Fetch [''AAPL'', ''^GSPC''] (- 17280000000000000) 3024000000000000])"
proof -
  have s: "remap (sanitize ''AAPL'') = ''AAPL''" by code_simp
  have d: "short_provider [remap (sanitize ''AAPL''), ''^GSPC''] (- 17280000000000000)
             3024000000000000 = Inr (short_frame [''AAPL'', ''^GSPC''])"
    by (simp add: short_provider_def s)
  have l: "length (rows (returns_of (short_frame [''AAPL'', ''^GSPC'']))) = 2" by code_simp
  have l50: "length (rows (returns_of (short_frame [''AAPL'', ''^GSPC'']))) < 50"
    by (simp add: l)
  have m: "market_model ''^GSPC'' ''AAPL'' (- 17280000000000000) (- 864000000000000)
         (returns_of (short_frame [''AAPL'', ''^GSPC''])) = Inl ValueError" by code_simp
  have p: "''AAPL'' \<notin> set placeholders" by (simp add: placeholders_def)
  show ?thesis
    using short_history_yields_none [where download = short_provider and raw = "''AAPL''"
        and benchmark = "''^GSPC''", OF event_windows_epoch fetch_end_epoch d l50]
      event_windows_epoch fetch_end_epoch d l m p s
    by simp
qed

section \<open>The batch\<close>

lemma apply_rows_values:
  assumes "\<forall>r\<in>set rs. \<exists>v evs.
             calculate_car download benchmark (ticker r) (transaction_date r) 30 = (Inr v, evs)"
  shows "\<exists>vs evs. apply_rows download benchmark rs = (Inr vs, evs)
           \<and> map Inr vs
               = map (\<lambda>r. fst (calculate_car download benchmark (ticker r) (transaction_date r) 30)) rs"
  using assms
proof (induction rs)
  case Nil
  then show ?case by simp
next
  case (Cons r rs)
  then obtain v evs where
    h: "calculate_car download benchmark (ticker r) (transaction_date r) 30 = (Inr v, evs)"
    by auto
  from Cons obtain vs evs' where
    t: "apply_rows download benchmark rs = (Inr vs, evs')"
      "map Inr vs
         = map (\<lambda>r. fst (calculate_car download benchmark (ticker r) (transaction_date r) 30)) rs"
    by auto
  show ?case using h t by simp
qed

text \<open>
  C5 does not hold for the empty table: line 107 returns it as it is, and no column
  \<open>car_30d\<close> is added.
\<close>

theorem analyze_batch_empty_counterexample:
  "analyze_batch flat_provider ''^GSPC'' \<lparr>trades = [], car_30d = None\<rparr>
     = (Inr \<lparr>trades = [], car_30d = None\<rparr>, [])"
  by (simp add: analyze_batch_def)

text \<open>
  C5, amended. When no call of \<open>calculate_car\<close> raises, \<open>analyze_batch\<close> returns the
  table with the same rows in the same order and with the column \<open>car_30d\<close>, which
  holds for every row, in order, the value \<open>calculate_car\<close> gives for it, also after a
  row whose value is \<open>None\<close>; the empty table is returned as it is, without the column.
\<close>

theorem analyze_batch_adds_column:
  assumes "\<forall>r\<in>set (trades df). \<exists>v evs.
             calculate_car download benchmark (ticker r) (transaction_date r) 30 = (Inr v, evs)"
  shows "if trades df = [] then analyze_batch download benchmark df = (Inr df, [])
         else (\<exists>vs. fst (analyze_batch download benchmark df) = Inr (df\<lparr>car_30d := Some vs\<rparr>)
                \<and> map Inr vs
                    = map (\<lambda>r. fst (calculate_car download benchmark (ticker r)
                                       (transaction_date r) 30)) (trades df))"
proof (cases "trades df = []")
  case True
  then show ?thesis by (simp add: analyze_batch_def)
next
  case False
  from apply_rows_values [OF assms] obtain vs evs where
    "apply_rows download benchmark (trades df) = (Inr vs, evs)"
    "map Inr vs = map (\<lambda>r. fst (calculate_car download benchmark (ticker r)
                                       (transaction_date r) 30)) (trades df)"
    by blast
  then show ?thesis using False by (auto simp: analyze_batch_def)
qed

lemma sample_car_valid:
  "calculate_car flat_provider ''^GSPC'' (Str ''AAPL'') (Some 0) 30
     = (Inr (Some (Fin 0)), [Fetch [''AAPL'', ''^GSPC''] (- 17280000000000000) 3024000000000000])"
  "calculate_car flat_provider ''^GSPC'' (Str ''brk/b'') (Some 0) 30
     = (Inr (Some (Fin 0)), [Fetch [''BRK-B'', ''^GSPC''] (- 17280000000000000) 3024000000000000])"
  by code_simp+

lemma sample_car_invalid:
  "calculate_car flat_provider ''^GSPC'' (Str ''--'') (Some 0) 30 = (Inr None, [])"
  "calculate_car flat_provider ''^GSPC'' NanVal None 30 = (Inr None, [])"
  by (simp_all add: calculate_car_def placeholders_def)

theorem analyze_batch_adds_column_witness:
  "map (\<lambda>r. fst (calculate_car flat_provider ''^GSPC'' (ticker r) (transaction_date r) 30))
       sample_trades
     = [Inr (Some (Fin 0)), Inr None, Inr None, Inr (Some (Fin 0))]
   \<and> fst (analyze_batch flat_provider ''^GSPC'' \<lparr>trades = sample_trades, car_30d = None\<rparr>)
       = Inr \<lparr>trades = sample_trades,
              car_30d = Some [Some (Fin 0), None, None, Some (Fin 0)]\<rparr>"
proof -
  have h: "\<forall>r\<in>set (trades \<lparr>trades = sample_trades, car_30d = None\<rparr>). \<exists>v evs.
      calculate_car flat_provider ''^GSPC'' (ticker r) (transaction_date r) 30 = (Inr v, evs)"
    by (simp add: sample_trades_def sample_car_valid sample_car_invalid)
  have n: "sample_trades \<noteq> []" by (simp add: sample_trades_def)
  from analyze_batch_adds_column [OF h] n obtain vs where
    r: "fst (analyze_batch flat_provider ''^GSPC'' \<lparr>trades = sample_trades, car_30d = None\<rparr>)
          = Inr \<lparr>trades = sample_trades, car_30d = Some vs\<rparr>"
    and m: "map Inr vs
          = map (\<lambda>r. fst (calculate_car flat_provider ''^GSPC'' (ticker r) (transaction_date r) 30))
              sample_trades"
    by auto
  from m have "vs = [Some (Fin 0), None, None, Some (Fin 0)]"
    by (auto simp: sample_trades_def sample_car_valid sample_car_invalid)
  with r show ?thesis
    by (simp add: sample_trades_def sample_car_valid sample_car_invalid)
qed

section \<open>Returns\<close>

lemma pct_rows_nth:
  "pct_rows prev rs
     = map (\<lambda>i. (fst (rs ! i), \<lambda>c. pct (snd ((prev # rs) ! i) c) (snd (rs ! i) c)))
         [0..<length rs]"
proof (induction rs arbitrary: prev)
  case Nil
  show ?case by simp
next
  case (Cons r rs)
  have "[0..<length (r # rs)] = 0 # map Suc [0..<length rs]"
    by (simp add: upt_conv_Cons map_Suc_upt del: upt_Suc)
  then show ?case by (simp add: Cons.IH comp_def del: upt_Suc)
qed

lemma pct_cases:
  "pct (Fin p) (Fin q)
     = (if p = 0 then (if q = 0 then NaN else if 0 < q then PInf else NInf)
        else Fin (q / p - 1))"
  "pct NaN v = NaN"
  "pct v NaN = NaN"
  by (cases v; simp add: pct_def fsub_def inf_of_sign_def)+

lemma returns_rows_nth:
  assumes "columns data \<noteq> []"
  shows "rows (returns_of data)
     = map (\<lambda>i. (fst (rows data ! i),
                  \<lambda>c. pct (snd (rows data ! (i - 1)) c) (snd (rows data ! i) c)))
         (filter (\<lambda>i. \<forall>c\<in>set (columns data).
                     pct (snd (rows data ! (i - 1)) c) (snd (rows data ! i) c) \<noteq> NaN)
            [1..<length (rows data)])"
proof (cases "rows data")
  case Nil
  then show ?thesis by (simp add: returns_of_def dropna_def pct_change_def)
next
  case (Cons r rs)
  from assms obtain c cs where cols: "columns data = c # cs" by (cases "columns data") auto
  have first: "\<not> row_complete (columns data) (fst r, \<lambda>c. NaN)"
    by (simp add: row_complete_def cols)
  have shift: "[Suc 0..<Suc (length rs)] = map Suc [0..<length rs]"
    by (simp add: map_Suc_upt del: upt_Suc)
  show ?thesis
    unfolding returns_of_def dropna_def pct_change_def
    using first assms
    by (simp add: Cons pct_rows_nth filter_map comp_def row_complete_def list_all_iff
        shift del: upt_Suc)
qed

text \<open>
  C3. The return of a row in a column is \<open>pct\<close> of the price in the row before and the
  price in the row itself: \<open>price[i] / price[i-1] - 1\<close> when both are numbers (and the
  earlier one is not zero), NaN when either is missing. The rows of the return table
  are, in order, the rows from the second on whose return is not NaN in any column, so
  the first row and every row after a missing price are left out and nothing is filled
  in; every row of a label slice of the return table, such as the estimation and the
  event data, is one of these rows.
\<close>

theorem returns_from_consecutive_prices:
  assumes "columns data \<noteq> []"
  shows "rows (returns_of data)
           = map (\<lambda>i. (fst (rows data ! i),
                        \<lambda>c. pct (snd (rows data ! (i - 1)) c) (snd (rows data ! i) c)))
               (filter (\<lambda>i. \<forall>c\<in>set (columns data).
                           pct (snd (rows data ! (i - 1)) c) (snd (rows data ! i) c) \<noteq> NaN)
                  [1..<length (rows data)])
         \<and> (\<forall>p q. p \<noteq> 0 \<longrightarrow> pct (Fin p) (Fin q) = Fin (q / p - 1))
         \<and> (\<forall>v. pct NaN v = NaN \<and> pct v NaN = NaN)
         \<and> (\<forall>a b. \<forall>r\<in>set (rows (loc_slice a b (returns_of data))).
               r \<in> set (rows (returns_of data)) \<and> (\<forall>c\<in>set (columns data). snd r c \<noteq> NaN))"
proof -
  have "\<forall>r\<in>set (rows (loc_slice a b (returns_of data))).
          r \<in> set (rows (returns_of data)) \<and> (\<forall>c\<in>set (columns data). snd r c \<noteq> NaN)" for a b
    by (auto simp: loc_slice_def returns_of_def dropna_def pct_change_def row_complete_def
        list_all_iff)
  then show ?thesis
    using returns_rows_nth [OF assms] by (simp add: pct_cases)
qed

theorem returns_from_consecutive_prices_witness:
  "columns gap_frame \<noteq> []
   \<and> map (\<lambda>r. (fst r, snd r ''A'', snd r ''B'')) (rows (returns_of gap_frame))
       = [(3 * ns_per_day, Fin 1, Fin 1)]"
proof -
  have c: "columns gap_frame \<noteq> []" by (simp add: gap_frame_def)
  have n: "[1..<length (rows gap_frame)] = [1, 2, 3]"
    by (simp add: gap_frame_def upt_conv_Cons)
  have "rows (returns_of gap_frame)
          = [(3 * ns_per_day, \<lambda>c. pct (snd (rows gap_frame ! 2) c) (snd (rows gap_frame ! 3) c))]"
    using returns_from_consecutive_prices [OF c, THEN conjunct1] unfolding n
    by (simp add: gap_frame_def pct_cases)
  then show ?thesis using c by (simp add: gap_frame_def pct_cases)
qed

section \<open>The market model and the aggregate\<close>

lemma centred_sum_zero:
  fixes f :: "'a \<Rightarrow> real"
  assumes "ps \<noteq> []"
  shows "(\<Sum>p\<leftarrow>ps. f p - (\<Sum>p\<leftarrow>ps. f p) / real (length ps)) = 0"
proof -
  have "(\<Sum>p\<leftarrow>ps. f p - (\<Sum>p\<leftarrow>ps. f p) / real (length ps))
          = (\<Sum>p\<leftarrow>ps. f p) - real (length ps) * ((\<Sum>p\<leftarrow>ps. f p) / real (length ps))"
    by (simp add: sum_list_subtractf sum_list_triv)
  also have "\<dots> = 0" using assms by simp
  finally show ?thesis .
qed

lemma ols_pairs:
  assumes "length xs = length ys"
  shows "ols xs ys =
     (let ps = zip xs ys;
          mx = (\<Sum>p\<leftarrow>ps. fst p) / real (length ps);
          my = (\<Sum>p\<leftarrow>ps. snd p) / real (length ps);
          sxx = (\<Sum>p\<leftarrow>ps. (fst p - mx) * (fst p - mx));
          sxy = (\<Sum>p\<leftarrow>ps. (fst p - mx) * (snd p - my));
          beta = (if sxx = 0 then 0 else sxy / sxx)
      in (my - beta * mx, beta))"
proof -
  have x: "xs = map fst (zip xs ys)" and y: "ys = map snd (zip xs ys)"
    using assms by simp_all
  have lx: "length xs = length (zip xs ys)" and ly: "length ys = length (zip xs ys)"
    using assms by simp_all
  have sx: "sum_list xs = (\<Sum>p\<leftarrow>zip xs ys. fst p)" using x by simp
  have sy: "sum_list ys = (\<Sum>p\<leftarrow>zip xs ys. snd p)" using y by simp
  have sxx: "(\<Sum>x\<leftarrow>xs. (x - m) * (x - m)) = (\<Sum>p\<leftarrow>zip xs ys. (fst p - m) * (fst p - m))" for m
  proof -
    have "(\<Sum>x\<leftarrow>map fst (zip xs ys). (x - m) * (x - m))
            = (\<Sum>p\<leftarrow>zip xs ys. (fst p - m) * (fst p - m))"
      by (simp add: comp_def)
    then show ?thesis using x by simp
  qed
  show ?thesis
    unfolding ols_def mean_def Let_def sx sy sxx lx [symmetric]
    by (simp add: case_prod_unfold assms)
qed

lemma least_squares_optimal:
  fixes ps :: "(real \<times> real) list"
  assumes "ps \<noteq> []"
    and mx: "mx = (\<Sum>p\<leftarrow>ps. fst p) / real (length ps)"
    and my: "my = (\<Sum>p\<leftarrow>ps. snd p) / real (length ps)"
    and sxx: "sxx = (\<Sum>p\<leftarrow>ps. (fst p - mx) * (fst p - mx))"
    and sxy: "sxy = (\<Sum>p\<leftarrow>ps. (fst p - mx) * (snd p - my))"
    and beta: "beta = (if sxx = 0 then 0 else sxy / sxx)"
    and alpha: "alpha = my - beta * mx"
  shows "(\<Sum>p\<leftarrow>ps. (snd p - (alpha + beta * fst p))\<^sup>2)
           \<le> (\<Sum>p\<leftarrow>ps. (snd p - (a + b * fst p))\<^sup>2)"
proof -
  define r where "r p = (snd p - my) - beta * (fst p - mx)" for p :: "real \<times> real"
  define c where "c = alpha - a + (beta - b) * mx"
  define d where "d = beta - b"
  define u where "u p = c + d * (fst p - mx)" for p :: "real \<times> real"
  have ex: "(\<Sum>p\<leftarrow>ps. fst p - mx) = 0"
    unfolding mx using assms(1) by (rule centred_sum_zero)
  have ey: "(\<Sum>p\<leftarrow>ps. snd p - my) = 0"
    unfolding my using assms(1) by (rule centred_sum_zero)
  have sum_r: "(\<Sum>p\<leftarrow>ps. r p) = 0"
    using ex ey by (simp add: r_def sum_list_subtractf sum_list_const_mult)
  have normal: "sxy - beta * sxx = 0"
  proof (cases "sxx = 0")
    case False
    then show ?thesis by (simp add: beta)
  next
    case True
    have "\<forall>v\<in>set (map (\<lambda>p. (fst p - mx) * (fst p - mx)) ps). v = 0"
      using True unfolding sxx
      by (subst (asm) sum_list_nonneg_eq_0_iff) auto
    then have z: "\<And>p. p \<in> set ps \<Longrightarrow> fst p - mx = 0" by auto
    have "sxy = (\<Sum>p\<leftarrow>ps. 0)"
      unfolding sxy by (rule arg_cong [where f = sum_list], rule map_cong) (simp_all add: z)
    then show ?thesis using True by simp
  qed
  have sum_rx: "(\<Sum>p\<leftarrow>ps. r p * (fst p - mx)) = 0"
  proof -
    have "(\<Sum>p\<leftarrow>ps. r p * (fst p - mx))
            = (\<Sum>p\<leftarrow>ps. (fst p - mx) * (snd p - my) - beta * ((fst p - mx) * (fst p - mx)))"
      by (rule arg_cong [where f = sum_list], rule map_cong) (simp_all add: r_def algebra_simps)
    also have "\<dots> = sxy - beta * sxx"
      by (simp add: sum_list_subtractf sum_list_const_mult sxx sxy)
    finally show ?thesis using normal by simp
  qed
  have sum_ru: "(\<Sum>p\<leftarrow>ps. r p * u p) = 0"
  proof -
    have "(\<Sum>p\<leftarrow>ps. r p * u p) = (\<Sum>p\<leftarrow>ps. c * r p + d * (r p * (fst p - mx)))"
      by (rule arg_cong [where f = sum_list], rule map_cong) (simp_all add: u_def algebra_simps)
    also have "\<dots> = c * (\<Sum>p\<leftarrow>ps. r p) + d * (\<Sum>p\<leftarrow>ps. r p * (fst p - mx))"
      by (simp add: sum_list_addf sum_list_const_mult)
    finally show ?thesis by (simp add: sum_r sum_rx)
  qed
  have fitted: "(\<Sum>p\<leftarrow>ps. (snd p - (alpha + beta * fst p))\<^sup>2) = (\<Sum>p\<leftarrow>ps. (r p)\<^sup>2)"
    by (rule arg_cong [where f = sum_list], rule map_cong)
      (simp_all add: r_def alpha algebra_simps)
  have "(\<Sum>p\<leftarrow>ps. (snd p - (a + b * fst p))\<^sup>2)
          = (\<Sum>p\<leftarrow>ps. (r p)\<^sup>2 + 2 * (r p * u p) + (u p)\<^sup>2)"
    by (rule arg_cong [where f = sum_list], rule map_cong)
      (simp_all add: r_def u_def c_def d_def alpha power2_eq_square algebra_simps)
  also have "\<dots> = (\<Sum>p\<leftarrow>ps. (r p)\<^sup>2) + 2 * (\<Sum>p\<leftarrow>ps. r p * u p) + (\<Sum>p\<leftarrow>ps. (u p)\<^sup>2)"
    by (simp add: sum_list_addf sum_list_const_mult)
  also have "\<dots> = (\<Sum>p\<leftarrow>ps. (r p)\<^sup>2) + (\<Sum>p\<leftarrow>ps. (u p)\<^sup>2)"
    by (simp add: sum_ru)
  finally have "(\<Sum>p\<leftarrow>ps. (snd p - (a + b * fst p))\<^sup>2)
                  = (\<Sum>p\<leftarrow>ps. (r p)\<^sup>2) + (\<Sum>p\<leftarrow>ps. (u p)\<^sup>2)" .
  moreover have "0 \<le> (\<Sum>p\<leftarrow>ps. (u p)\<^sup>2)"
    by (rule sum_list_nonneg) auto
  ultimately show ?thesis using fitted by simp
qed

lemma event_windows_values:
  assumes "event_windows td window_days = Inr (est_start, est_end, evt_end)"
  shows "est_start = td - 200 * ns_per_day" "est_end = td - 10 * ns_per_day"
    "evt_end = td + window_days * ns_per_day"
  using assms
  by (auto simp: event_windows_def ts_add_def timedelta_days_def Let_def
      split: sum.splits if_splits)

lemma finite_vals_map:
  "\<forall>v\<in>set vs. is_fin v \<Longrightarrow> finite_vals vs = Some (map the_fin vs)"
proof (induction vs)
  case Nil
  show ?case by simp
next
  case (Cons v vs)
  then show ?case by (cases v) simp_all
qed

lemma finite_vals_None:
  "\<not> (\<forall>v\<in>set vs. is_fin v) \<Longrightarrow> finite_vals vs = None"
proof (induction vs)
  case Nil
  then show ?case by simp
next
  case (Cons v vs)
  then show ?case by (cases v) (auto split: option.splits)
qed

lemma sum_zip_map:
  "(\<Sum>p\<leftarrow>zip (map f rs) (map g rs). h p) = (\<Sum>r\<leftarrow>rs. h (f r, g r))"
  by (induction rs) simp_all

text \<open>The result of a call that passes the validation, the fetch and the floor of 50 rows.\<close>

lemma calculate_car_after_fit:
  assumes "event_windows td window_days = Inr (est_start, est_end, evt_end)"
    and "ts_add evt_end (5 * ns_per_day) = Inr fetch_end"
    and "raw \<notin> set placeholders"
    and "symbol = remap (sanitize raw)"
    and "download [symbol, benchmark] est_start fetch_end = Inr data"
    and "50 \<le> length (rows (returns_of data))"
  shows "calculate_car download benchmark (Str raw) (Some td) window_days
           = (case market_model benchmark symbol est_start est_end (returns_of data) of
                Inl e \<Rightarrow> (Inr None, [Fetch [symbol, benchmark] est_start fetch_end,
                                       LogError symbol e])
              | Inr None \<Rightarrow> (Inr None, [Fetch [symbol, benchmark] est_start fetch_end])
              | Inr (Some (alpha, beta)) \<Rightarrow>
                  (Inr (aggregate benchmark symbol alpha beta td evt_end (returns_of data)),
                   [Fetch [symbol, benchmark] est_start fetch_end]))"
proof -
  have long: "\<not> length (rows (returns_of data)) < 50" using assms(6) by simp
  have "calculate_car download benchmark (Str raw) (Some td) window_days
          = guarded download benchmark symbol td est_start est_end evt_end"
    using assms(1,3,4) by (simp add: calculate_car_def)
  then show ?thesis
    using long assms(2,5)
    by (simp add: guarded_def try_body_def Let_def split: sum.splits option.splits prod.splits)
qed

lemma zero_download:
  "zero_provider k0 [''AAPL'', ''^GSPC''] (- 17280000000000000) 3024000000000000
     = Inr (zero_frame k0 [''AAPL'', ''^GSPC''])"
  by (simp add: zero_provider_def)

lemma plain_symbol: "''AAPL'' = remap (sanitize ''AAPL'')"
  by code_simp

lemma plain_raw: "''AAPL'' \<notin> set placeholders"
  by (simp add: placeholders_def)

text \<open>
  C2 does not hold as stated: with a quote of zero in the estimation window the window
  is not empty and both columns are there, but a return in it is infinite, the fit
  raises, and the result is \<open>None\<close> with one log record.
\<close>

theorem nonfinite_estimation_counterexample:
  "length (filter (\<lambda>r. 0 - 200 * ns_per_day \<le> fst r \<and> fst r \<le> 0 - 10 * ns_per_day)
            (rows (returns_of (zero_frame 20 [''AAPL'', ''^GSPC''])))) = 30
   \<and> columns (returns_of (zero_frame 20 [''AAPL'', ''^GSPC''])) = [''AAPL'', ''^GSPC'']
   \<and> length (rows (returns_of (zero_frame 20 [''AAPL'', ''^GSPC'']))) = 60
   \<and> calculate_car (zero_provider 20) ''^GSPC'' (Str ''AAPL'') (Some 0) 30
       = (Inr None,
          [Fetch [''AAPL'', ''^GSPC''] (- 17280000000000000) 3024000000000000,
           LogError ''AAPL'' ValueError])"
proof -
  have e: "length (filter (\<lambda>r. 0 - 200 * ns_per_day \<le> fst r \<and> fst r \<le> 0 - 10 * ns_per_day)
            (rows (returns_of (zero_frame 20 [''AAPL'', ''^GSPC''])))) = 30"
    by code_simp
  have c: "columns (returns_of (zero_frame 20 [''AAPL'', ''^GSPC''])) = [''AAPL'', ''^GSPC'']"
    by (simp add: returns_of_def dropna_def pct_change_def zero_frame_def)
  have l: "length (rows (returns_of (zero_frame 20 [''AAPL'', ''^GSPC'']))) = 60"
    by code_simp
  then have n: "50 \<le> length (rows (returns_of (zero_frame 20 [''AAPL'', ''^GSPC''])))"
    by simp
  have m: "market_model ''^GSPC'' ''AAPL'' (- 17280000000000000) (- 864000000000000)
     (returns_of (zero_frame 20 [''AAPL'', ''^GSPC''])) = Inl ValueError"
    by code_simp
  have "calculate_car (zero_provider 20) ''^GSPC'' (Str ''AAPL'') (Some 0) 30
       = (Inr None,
          [Fetch [''AAPL'', ''^GSPC''] (- 17280000000000000) 3024000000000000,
           LogError ''AAPL'' ValueError])"
    using calculate_car_after_fit [where download = "zero_provider 20"
        and benchmark = "''^GSPC''" and raw = "''AAPL''" and symbol = "''AAPL''",
        OF event_windows_epoch fetch_end_epoch plain_raw plain_symbol zero_download n]
    by (simp add: m)
  with e c l show ?thesis by (simp only: simp_thms)
qed

text \<open>
  C2, amended. The model is fitted on the rows of the return table labelled from 200 days to 10
  days before the trade, both included. When there is no such row, or the table lacks
  the column of the benchmark or of the symbol, the result is \<open>None\<close>. Otherwise, when
  the returns of these rows are finite, \<open>alpha\<close> and \<open>beta\<close> are a solution of the
  least-squares problem with intercept and without penalty: no pair of coefficients
  has a smaller sum of squared residuals over these rows. The result of
  \<open>calculate_car\<close> is then the aggregate computed with them. When a return of these
  rows is not finite, the fit raises, and the result is \<open>None\<close> with one log record.
\<close>

theorem market_model_on_estimation_window:
  assumes w: "event_windows td window_days = Inr (est_start, est_end, evt_end)"
    and fe: "ts_add evt_end (5 * ns_per_day) = Inr fetch_end"
    and raw: "raw \<notin> set placeholders"
    and sym: "symbol = remap (sanitize raw)"
    and dl: "download [symbol, benchmark] est_start fetch_end = Inr data"
    and srt: "sorted (map fst (rows data))"
    and n50: "50 \<le> length (rows (returns_of data))"
    and est: "est = filter (\<lambda>r. td - 200 * ns_per_day \<le> fst r \<and> fst r \<le> td - 10 * ns_per_day)
                      (rows (returns_of data))"
  shows "if est = [] \<or> benchmark \<notin> set (columns data) \<or> symbol \<notin> set (columns data)
         then calculate_car download benchmark (Str raw) (Some td) window_days
                = (Inr None, [Fetch [symbol, benchmark] est_start fetch_end])
         else if \<forall>r\<in>set est. is_fin (snd r benchmark) \<and> is_fin (snd r symbol)
         then \<exists>alpha beta.
                market_model benchmark symbol est_start est_end (returns_of data)
                  = Inr (Some (alpha, beta))
                \<and> (\<forall>a b. (\<Sum>r\<leftarrow>est. (the_fin (snd r symbol)
                                      - (alpha + beta * the_fin (snd r benchmark)))\<^sup>2)
                           \<le> (\<Sum>r\<leftarrow>est. (the_fin (snd r symbol)
                                        - (a + b * the_fin (snd r benchmark)))\<^sup>2))
                \<and> calculate_car download benchmark (Str raw) (Some td) window_days
                    = (Inr (aggregate benchmark symbol alpha beta td evt_end (returns_of data)),
                       [Fetch [symbol, benchmark] est_start fetch_end])
         else calculate_car download benchmark (Str raw) (Some td) window_days
                = (Inr None, [Fetch [symbol, benchmark] est_start fetch_end,
                              LogError symbol ValueError])"
proof -
  let ?returns = "returns_of data"
  let ?X = "column_values (loc_slice est_start est_end ?returns) benchmark"
  let ?y = "column_values (loc_slice est_start est_end ?returns) symbol"
  have cols: "columns (loc_slice est_start est_end ?returns) = columns data"
    by (simp add: loc_slice_def returns_of_def dropna_def pct_change_def)
  have slice: "rows (loc_slice est_start est_end ?returns) = est"
    by (simp add: loc_slice_def est event_windows_values [OF w])
  have X: "?X = map (\<lambda>r. snd r benchmark) est" and y: "?y = map (\<lambda>r. snd r symbol) est"
    by (simp_all add: column_values_def slice)
  have car: "calculate_car download benchmark (Str raw) (Some td) window_days
               = guarded download benchmark symbol td est_start est_end evt_end"
    using raw w by (simp add: calculate_car_def sym)
  have long: "\<not> length (rows ?returns) < 50" using n50 by simp
  show ?thesis
  proof (cases "est = [] \<or> benchmark \<notin> set (columns data) \<or> symbol \<notin> set (columns data)")
    case True
    then have "market_model benchmark symbol est_start est_end ?returns = Inr None"
      by (auto simp: market_model_def Let_def frame_empty_def cols slice)
    then show ?thesis
      using True long by (simp add: car guarded_def try_body_def fe dl Let_def)
  next
    case False
    then have ne: "est \<noteq> []" and present: "\<not> frame_empty (loc_slice est_start est_end ?returns)"
      "benchmark \<in> set (columns data)" "symbol \<in> set (columns data)"
      by (auto simp: frame_empty_def cols slice)
    have mm: "market_model benchmark symbol est_start est_end ?returns
                = (case linreg_fit ?X ?y of Inl e \<Rightarrow> Inl e | Inr m \<Rightarrow> Inr (Some m))"
      using present by (simp add: market_model_def Let_def cols)
    show ?thesis
    proof (cases "\<forall>r\<in>set est. is_fin (snd r benchmark) \<and> is_fin (snd r symbol)")
      case True
      then have fx: "finite_vals ?X = Some (map (\<lambda>r. the_fin (snd r benchmark)) est)"
        and fy: "finite_vals ?y = Some (map (\<lambda>r. the_fin (snd r symbol)) est)"
        by (simp_all add: X y finite_vals_map comp_def)
      let ?xs = "map (\<lambda>r. the_fin (snd r benchmark)) est"
      let ?ys = "map (\<lambda>r. the_fin (snd r symbol)) est"
      obtain alpha beta where ab: "ols ?xs ?ys = (alpha, beta)" by (cases "ols ?xs ?ys")
      have fit: "linreg_fit ?X ?y = Inr (alpha, beta)"
        using ne by (simp add: linreg_fit_def fx fy ab)
      have model: "market_model benchmark symbol est_start est_end ?returns
                     = Inr (Some (alpha, beta))"
        by (simp add: mm fit)
      have zne: "zip ?xs ?ys \<noteq> []" using ne by (cases est) simp_all
      have pairs: "(alpha, beta)
            = (let ps = zip ?xs ?ys;
                   mx = (\<Sum>p\<leftarrow>ps. fst p) / real (length ps);
                   my = (\<Sum>p\<leftarrow>ps. snd p) / real (length ps);
                   sxx = (\<Sum>p\<leftarrow>ps. (fst p - mx) * (fst p - mx));
                   sxy = (\<Sum>p\<leftarrow>ps. (fst p - mx) * (snd p - my));
                   beta = (if sxx = 0 then 0 else sxy / sxx)
               in (my - beta * mx, beta))"
        using ols_pairs [of ?xs ?ys] ab by simp
      have opt: "(\<Sum>p\<leftarrow>zip ?xs ?ys. (snd p - (alpha + beta * fst p))\<^sup>2)
                   \<le> (\<Sum>p\<leftarrow>zip ?xs ?ys. (snd p - (a + b * fst p))\<^sup>2)" for a b
        using pairs
        by (intro least_squares_optimal [OF zne refl refl refl refl]) (simp_all add: Let_def)
      have least: "(\<Sum>r\<leftarrow>est. (the_fin (snd r symbol)
                                      - (alpha + beta * the_fin (snd r benchmark)))\<^sup>2)
                           \<le> (\<Sum>r\<leftarrow>est. (the_fin (snd r symbol)
                                        - (a + b * the_fin (snd r benchmark)))\<^sup>2)" for a b
        using opt [of a b] by (simp add: sum_zip_map)
      have "calculate_car download benchmark (Str raw) (Some td) window_days
              = (Inr (aggregate benchmark symbol alpha beta td evt_end ?returns),
                 [Fetch [symbol, benchmark] est_start fetch_end])"
        using long by (simp add: car guarded_def try_body_def fe dl Let_def model)
      with model least show ?thesis using False True by auto
    next
      case nonfinite: False
      then have "\<not> (\<forall>v\<in>set ?X. is_fin v) \<or> \<not> (\<forall>v\<in>set ?y. is_fin v)"
        by (auto simp: X y)
      then have "finite_vals ?X = None \<or> finite_vals ?y = None"
      proof
        assume a: "\<not> (\<forall>v\<in>set ?X. is_fin v)"
        show ?thesis by (rule disjI1) (rule finite_vals_None [OF a])
      next
        assume a: "\<not> (\<forall>v\<in>set ?y. is_fin v)"
        show ?thesis by (rule disjI2) (rule finite_vals_None [OF a])
      qed
      then have "linreg_fit ?X ?y = Inl ValueError"
        by (auto simp: linreg_fit_def split: option.splits)
      then have "market_model benchmark symbol est_start est_end ?returns = Inl ValueError"
        by (simp add: mm)
      then show ?thesis
        using False nonfinite long
        by (simp add: car guarded_def try_body_def fe dl Let_def)
    qed
  qed
qed

lemma foldl_fadd_finite:
  "foldl fadd (Fin a) (map (\<lambda>r. Fin (f r)) rs) = Fin (a + (\<Sum>r\<leftarrow>rs. f r))"
  by (induction rs arbitrary: a) (simp_all add: add.assoc)

lemma series_sum_finite: "series_sum (map (\<lambda>r. Fin (f r)) rs) = Fin (\<Sum>r\<leftarrow>rs. f r)"
proof -
  have "filter (\<lambda>x. x \<noteq> NaN) (map (\<lambda>r. Fin (f r)) rs) = map (\<lambda>r. Fin (f r)) rs"
    by (induction rs) simp_all
  then show ?thesis by (simp add: series_sum_def foldl_fadd_finite)
qed

lemma abnormal_return_finite:
  assumes "is_fin (snd r symbol)" and "is_fin (snd r benchmark)"
  shows "abnormal_return benchmark symbol alpha beta r
           = Fin (the_fin (snd r symbol) - (alpha + beta * the_fin (snd r benchmark)))"
proof -
  from assms obtain y x where "snd r symbol = Fin y" "snd r benchmark = Fin x"
    by (cases "snd r symbol"; cases "snd r benchmark") simp_all
  then show ?thesis by (simp add: abnormal_return_def fsub_def)
qed

text \<open>
  C1 does not hold as stated: \<open>Series.sum()\<close> leaves out the rows whose abnormal return
  is NaN. With a quote of zero in the event window the returns of the next row are
  infinite in both columns and its abnormal return is NaN; the result is 1, the sum of
  the other rows, while the sum over every row of the window is NaN.
\<close>

theorem car_skips_nan_counterexample:
  "market_model ''^GSPC'' ''AAPL'' (- 17280000000000000) (- 864000000000000)
     (returns_of (zero_frame 45 [''AAPL'', ''^GSPC''])) = Inr (Some (0, 1))
   \<and> calculate_car (zero_provider 45) ''^GSPC'' (Str ''AAPL'') (Some 0) 30
       = (Inr (Some (Fin 1)),
          [Fetch [''AAPL'', ''^GSPC''] (- 17280000000000000) 3024000000000000])
   \<and> foldl fadd (Fin 0)
        (map (\<lambda>r. fsub (snd r ''AAPL'') (fadd (Fin 0) (fmul (Fin 1) (snd r ''^GSPC''))))
           (filter (\<lambda>r. 0 \<le> fst r \<and> fst r \<le> 0 + 30 * ns_per_day)
              (rows (returns_of (zero_frame 45 [''AAPL'', ''^GSPC''])))))
       = NaN"
proof -
  have m: "market_model ''^GSPC'' ''AAPL'' (- 17280000000000000) (- 864000000000000)
     (returns_of (zero_frame 45 [''AAPL'', ''^GSPC''])) = Inr (Some (0, 1))"
    by code_simp
  have a: "aggregate ''^GSPC'' ''AAPL'' 0 1 0 2592000000000000
     (returns_of (zero_frame 45 [''AAPL'', ''^GSPC''])) = Some (Fin 1)"
    by code_simp
  have n: "50 \<le> length (rows (returns_of (zero_frame 45 [''AAPL'', ''^GSPC''])))"
    by code_simp
  have f: "foldl fadd (Fin 0)
        (map (\<lambda>r. fsub (snd r ''AAPL'') (fadd (Fin 0) (fmul (Fin 1) (snd r ''^GSPC''))))
           (filter (\<lambda>r. 0 \<le> fst r \<and> fst r \<le> 0 + 30 * ns_per_day)
              (rows (returns_of (zero_frame 45 [''AAPL'', ''^GSPC''])))))
       = NaN"
    by code_simp
  have "calculate_car (zero_provider 45) ''^GSPC'' (Str ''AAPL'') (Some 0) 30
       = (Inr (Some (Fin 1)),
          [Fetch [''AAPL'', ''^GSPC''] (- 17280000000000000) 3024000000000000])"
    using calculate_car_after_fit [where download = "zero_provider 45"
        and benchmark = "''^GSPC''" and raw = "''AAPL''" and symbol = "''AAPL''",
        OF event_windows_epoch fetch_end_epoch plain_raw plain_symbol zero_download n]
    by (simp add: m a)
  with m f show ?thesis by (simp only: simp_thms)
qed

text \<open>
  C1, amended. For a trade that reaches the aggregation, the result is the sum, over the
  rows of the return table labelled from the trade date to \<open>window_days\<close> days after
  it, both included, whose abnormal return is not NaN, of the abnormal return: the
  return of the symbol minus \<open>alpha + beta * \<close> the return of the benchmark. When the
  returns of these rows are finite, it is the plain sum over all of them. It is \<open>None\<close>
  when there is no such row. The five days added to the end of the request do not
  enter the window.
\<close>

theorem car_is_sum_of_abnormal_returns:
  assumes w: "event_windows td window_days = Inr (est_start, est_end, evt_end)"
    and fe: "ts_add evt_end (5 * ns_per_day) = Inr fetch_end"
    and raw: "raw \<notin> set placeholders"
    and sym: "symbol = remap (sanitize raw)"
    and dl: "download [symbol, benchmark] est_start fetch_end = Inr data"
    and srt: "sorted (map fst (rows data))"
    and n50: "50 \<le> length (rows (returns_of data))"
    and model: "market_model benchmark symbol est_start est_end (returns_of data)
                  = Inr (Some (alpha, beta))"
    and evt: "evt = filter (\<lambda>r. td \<le> fst r \<and> fst r \<le> td + window_days * ns_per_day)
                      (rows (returns_of data))"
  shows "calculate_car download benchmark (Str raw) (Some td) window_days
           = (Inr (if evt = [] then None
                   else Some (foldl fadd (Fin 0)
                     (filter (\<lambda>x. x \<noteq> NaN)
                        (map (\<lambda>r. fsub (snd r symbol)
                                     (fadd (Fin alpha) (fmul (Fin beta) (snd r benchmark))))
                           evt)))),
              [Fetch [symbol, benchmark] est_start fetch_end])
         \<and> ((\<forall>r\<in>set evt. is_fin (snd r symbol) \<and> is_fin (snd r benchmark))
              \<longrightarrow> foldl fadd (Fin 0)
                     (filter (\<lambda>x. x \<noteq> NaN)
                        (map (\<lambda>r. fsub (snd r symbol)
                                     (fadd (Fin alpha) (fmul (Fin beta) (snd r benchmark))))
                           evt))
                  = Fin (\<Sum>r\<leftarrow>evt. the_fin (snd r symbol)
                                   - (alpha + beta * the_fin (snd r benchmark))))"
proof -
  let ?returns = "returns_of data"
  have slice: "rows (loc_slice td evt_end ?returns) = evt"
    by (simp add: loc_slice_def evt event_windows_values [OF w])
  have "symbol \<in> set (columns (loc_slice est_start est_end ?returns))"
    using model by (auto simp: market_model_def Let_def split: if_splits)
  then have cols: "columns (loc_slice td evt_end ?returns) \<noteq> []"
    by (auto simp: loc_slice_def)
  have ab: "abnormal_return benchmark symbol alpha beta
              = (\<lambda>r. fsub (snd r symbol) (fadd (Fin alpha) (fmul (Fin beta) (snd r benchmark))))"
    by (rule ext) (simp add: abnormal_return_def)
  have agg: "aggregate benchmark symbol alpha beta td evt_end ?returns
          = (if evt = [] then None
             else Some (foldl fadd (Fin 0)
                     (filter (\<lambda>x. x \<noteq> NaN)
                        (map (\<lambda>r. fsub (snd r symbol)
                                     (fadd (Fin alpha) (fmul (Fin beta) (snd r benchmark))))
                           evt))))"
    using cols by (simp add: aggregate_def Let_def frame_empty_def slice ab series_sum_def)
  have long: "\<not> length (rows ?returns) < 50" using n50 by simp
  have "calculate_car download benchmark (Str raw) (Some td) window_days
          = guarded download benchmark symbol td est_start est_end evt_end"
    using raw w by (simp add: calculate_car_def sym)
  then have result: "calculate_car download benchmark (Str raw) (Some td) window_days
           = (Inr (if evt = [] then None
                   else Some (foldl fadd (Fin 0)
                     (filter (\<lambda>x. x \<noteq> NaN)
                        (map (\<lambda>r. fsub (snd r symbol)
                                     (fadd (Fin alpha) (fmul (Fin beta) (snd r benchmark))))
                           evt)))),
              [Fetch [symbol, benchmark] est_start fetch_end])"
    using long by (simp add: guarded_def try_body_def fe dl Let_def model agg)
  have plain: "foldl fadd (Fin 0)
                 (filter (\<lambda>x. x \<noteq> NaN)
                    (map (\<lambda>r. fsub (snd r symbol)
                                 (fadd (Fin alpha) (fmul (Fin beta) (snd r benchmark))))
                       evt))
               = Fin (\<Sum>r\<leftarrow>evt. the_fin (snd r symbol)
                                - (alpha + beta * the_fin (snd r benchmark)))"
    if fin: "\<forall>r\<in>set evt. is_fin (snd r symbol) \<and> is_fin (snd r benchmark)"
  proof -
    have "map (abnormal_return benchmark symbol alpha beta) evt
            = map (\<lambda>r. Fin (the_fin (snd r symbol)
                               - (alpha + beta * the_fin (snd r benchmark)))) evt"
      using fin by (intro map_cong refl abnormal_return_finite) auto
    then have "series_sum (map (abnormal_return benchmark symbol alpha beta) evt)
                 = Fin (\<Sum>r\<leftarrow>evt. the_fin (snd r symbol)
                                  - (alpha + beta * the_fin (snd r benchmark)))"
      by (simp only: series_sum_finite)
    then show ?thesis by (simp add: series_sum_def ab)
  qed
  show ?thesis
  proof (intro conjI impI)
    show "calculate_car download benchmark (Str raw) (Some td) window_days
           = (Inr (if evt = [] then None
                   else Some (foldl fadd (Fin 0)
                     (filter (\<lambda>x. x \<noteq> NaN)
                        (map (\<lambda>r. fsub (snd r symbol)
                                     (fadd (Fin alpha) (fmul (Fin beta) (snd r benchmark))))
                           evt)))),
              [Fetch [symbol, benchmark] est_start fetch_end])"
      by (rule result)
  next
    assume "\<forall>r\<in>set evt. is_fin (snd r symbol) \<and> is_fin (snd r benchmark)"
    then show "foldl fadd (Fin 0)
                 (filter (\<lambda>x. x \<noteq> NaN)
                    (map (\<lambda>r. fsub (snd r symbol)
                                 (fadd (Fin alpha) (fmul (Fin beta) (snd r benchmark))))
                       evt))
               = Fin (\<Sum>r\<leftarrow>evt. the_fin (snd r symbol)
                                - (alpha + beta * the_fin (snd r benchmark)))"
      by (rule plain)
  qed
qed

text \<open>The two theorems at the trend provider: the fit is \<open>alpha = 0\<close>, \<open>beta = 1\<close>, and the result is 1.\<close>

lemma trend_download:
  "trend_provider [''AAPL'', ''^GSPC''] (- 17280000000000000) 3024000000000000
     = Inr (trend_frame [''AAPL'', ''^GSPC''])"
  by (simp add: trend_provider_def)

lemma trend_symbol: "''AAPL'' = remap (sanitize ''AAPL'')"
  by code_simp

lemma trend_raw: "''AAPL'' \<notin> set placeholders"
  by (simp add: placeholders_def)

lemma trend_sorted: "sorted (map fst (rows (trend_frame [''AAPL'', ''^GSPC''])))"
  by code_simp

lemma trend_length: "50 \<le> length (rows (returns_of (trend_frame [''AAPL'', ''^GSPC''])))"
  by code_simp

lemma trend_model:
  "market_model ''^GSPC'' ''AAPL'' (- 17280000000000000) (- 864000000000000)
     (returns_of (trend_frame [''AAPL'', ''^GSPC''])) = Inr (Some (0, 1))"
  by code_simp

theorem car_is_sum_of_abnormal_returns_witness:
  "event_windows 0 30 = Inr (- 17280000000000000, - 864000000000000, 2592000000000000)
   \<and> ts_add 2592000000000000 (5 * ns_per_day) = Inr 3024000000000000
   \<and> trend_provider [''AAPL'', ''^GSPC''] (- 17280000000000000) 3024000000000000
       = Inr (trend_frame [''AAPL'', ''^GSPC''])
   \<and> sorted (map fst (rows (trend_frame [''AAPL'', ''^GSPC''])))
   \<and> 50 \<le> length (rows (returns_of (trend_frame [''AAPL'', ''^GSPC''])))
   \<and> market_model ''^GSPC'' ''AAPL'' (- 17280000000000000) (- 864000000000000)
        (returns_of (trend_frame [''AAPL'', ''^GSPC''])) = Inr (Some (0, 1))
   \<and> length (filter (\<lambda>r. 0 \<le> fst r \<and> fst r \<le> 0 + 30 * ns_per_day)
                (rows (returns_of (trend_frame [''AAPL'', ''^GSPC''])))) = 21
   \<and> calculate_car trend_provider ''^GSPC'' (Str ''AAPL'') (Some 0) 30
       = (Inr (Some (Fin 1)),
          [Fetch [''AAPL'', ''^GSPC''] (- 17280000000000000) 3024000000000000])"
proof -
  let ?evt = "filter (\<lambda>r. 0 \<le> fst r \<and> fst r \<le> 0 + 30 * ns_per_day)
                (rows (returns_of (trend_frame [''AAPL'', ''^GSPC''])))"
  have fin: "\<forall>r\<in>set ?evt. is_fin (snd r ''AAPL'') \<and> is_fin (snd r ''^GSPC'')"
    by code_simp
  have len: "length ?evt = 21" by code_simp
  then have ne: "?evt \<noteq> []" by auto
  have total: "(\<Sum>r\<leftarrow>?evt. the_fin (snd r ''AAPL'') - (0 + 1 * the_fin (snd r ''^GSPC''))) = 1"
    by code_simp
  note t = car_is_sum_of_abnormal_returns [where download = trend_provider
        and benchmark = "''^GSPC''" and raw = "''AAPL''" and symbol = "''AAPL''" and evt = ?evt,
        OF event_windows_epoch fetch_end_epoch trend_raw trend_symbol trend_download
          trend_sorted trend_length trend_model refl]
  note plain = t [THEN conjunct2, THEN mp, OF fin]
  have "calculate_car trend_provider ''^GSPC'' (Str ''AAPL'') (Some 0) 30
       = (Inr (Some (Fin 1)),
          [Fetch [''AAPL'', ''^GSPC''] (- 17280000000000000) 3024000000000000])"
    using t [THEN conjunct1] ne unfolding plain total by (simp only: if_False)
  then show ?thesis
    using event_windows_epoch fetch_end_epoch trend_download trend_sorted trend_length
      trend_model len
    by (simp only: simp_thms)
qed

theorem market_model_on_estimation_window_witness:
  "event_windows 0 30 = Inr (- 17280000000000000, - 864000000000000, 2592000000000000)
   \<and> ts_add 2592000000000000 (5 * ns_per_day) = Inr 3024000000000000
   \<and> trend_provider [''AAPL'', ''^GSPC''] (- 17280000000000000) 3024000000000000
       = Inr (trend_frame [''AAPL'', ''^GSPC''])
   \<and> sorted (map fst (rows (trend_frame [''AAPL'', ''^GSPC''])))
   \<and> 50 \<le> length (rows (returns_of (trend_frame [''AAPL'', ''^GSPC''])))
   \<and> length (filter (\<lambda>r. 0 - 200 * ns_per_day \<le> fst r \<and> fst r \<le> 0 - 10 * ns_per_day)
                (rows (returns_of (trend_frame [''AAPL'', ''^GSPC''])))) = 30
   \<and> market_model ''^GSPC'' ''AAPL'' (- 17280000000000000) (- 864000000000000)
        (returns_of (trend_frame [''AAPL'', ''^GSPC''])) = Inr (Some (0, 1))
   \<and> (\<forall>a b.
        (\<Sum>r\<leftarrow>filter (\<lambda>r. 0 - 200 * ns_per_day \<le> fst r \<and> fst r \<le> 0 - 10 * ns_per_day)
              (rows (returns_of (trend_frame [''AAPL'', ''^GSPC'']))).
            (the_fin (snd r ''AAPL'') - (0 + 1 * the_fin (snd r ''^GSPC'')))\<^sup>2)
        \<le> (\<Sum>r\<leftarrow>filter (\<lambda>r. 0 - 200 * ns_per_day \<le> fst r \<and> fst r \<le> 0 - 10 * ns_per_day)
                (rows (returns_of (trend_frame [''AAPL'', ''^GSPC'']))).
              (the_fin (snd r ''AAPL'') - (a + b * the_fin (snd r ''^GSPC'')))\<^sup>2))"
proof -
  let ?est = "filter (\<lambda>r. 0 - 200 * ns_per_day \<le> fst r \<and> fst r \<le> 0 - 10 * ns_per_day)
                (rows (returns_of (trend_frame [''AAPL'', ''^GSPC''])))"
  have fin: "\<forall>r\<in>set ?est. is_fin (snd r ''^GSPC'') \<and> is_fin (snd r ''AAPL'')"
    by code_simp
  have len: "length ?est = 30" by code_simp
  then have ne: "?est \<noteq> []" by auto
  have cols: "''^GSPC'' \<in> set (columns (trend_frame [''AAPL'', ''^GSPC'']))"
    "''AAPL'' \<in> set (columns (trend_frame [''AAPL'', ''^GSPC'']))"
    by (simp_all add: trend_frame_def)
  have present: "\<not> (?est = [] \<or> ''^GSPC'' \<notin> set (columns (trend_frame [''AAPL'', ''^GSPC'']))
                      \<or> ''AAPL'' \<notin> set (columns (trend_frame [''AAPL'', ''^GSPC''])))"
    using ne cols by simp
  note t = market_model_on_estimation_window [where download = trend_provider
        and benchmark = "''^GSPC''" and raw = "''AAPL''" and symbol = "''AAPL''" and est = ?est,
        OF event_windows_epoch fetch_end_epoch trend_raw trend_symbol trend_download
          trend_sorted trend_length refl, unfolded if_not_P [OF present] if_P [OF fin]]
  from t obtain alpha beta where
    m: "market_model ''^GSPC'' ''AAPL'' (- 17280000000000000) (- 864000000000000)
          (returns_of (trend_frame [''AAPL'', ''^GSPC''])) = Inr (Some (alpha, beta))"
    and least: "\<And>a b. (\<Sum>r\<leftarrow>?est. (the_fin (snd r ''AAPL'')
                                      - (alpha + beta * the_fin (snd r ''^GSPC'')))\<^sup>2)
                           \<le> (\<Sum>r\<leftarrow>?est. (the_fin (snd r ''AAPL'')
                                        - (a + b * the_fin (snd r ''^GSPC'')))\<^sup>2)"
    by blast
  from m trend_model have "alpha = 0" "beta = 1" by simp_all
  with least have "\<forall>a b. (\<Sum>r\<leftarrow>?est. (the_fin (snd r ''AAPL'')
                                      - (0 + 1 * the_fin (snd r ''^GSPC'')))\<^sup>2)
                           \<le> (\<Sum>r\<leftarrow>?est. (the_fin (snd r ''AAPL'')
                                        - (a + b * the_fin (snd r ''^GSPC'')))\<^sup>2)"
    by blast
  then show ?thesis
    using event_windows_epoch fetch_end_epoch trend_download trend_sorted trend_length
      trend_model len
    by (simp only: simp_thms)
qed

text \<open>
  When the returns of the benchmark in the estimation window are all equal, the
  least-squares problem has more than one solution. In exact arithmetic the fit is then
  the one of least norm: slope 0 and the mean return of the symbol as intercept. With
  floats, which solution comes out is decided by the rounding of the centred column.
\<close>

lemma ols_constant:
  assumes "0 < n"
  shows "ols (replicate n c) (replicate n c) = (c, 0)"
proof -
  have m: "mean (replicate n c) = c"
    using assms by (simp add: mean_def sum_list_replicate)
  have "(\<Sum>x\<leftarrow>replicate n c. (x - c) * (x - c)) = 0"
    by (simp add: sum_list_replicate map_replicate_const)
  then show ?thesis by (simp add: ols_def m Let_def)
qed

section \<open>Exceptions\<close>

text \<open>The handler of the \<open>try\<close> turns every exception of its body into \<open>None\<close> and one log record.\<close>

lemma guarded_returns:
  "\<exists>r evs. guarded download benchmark symbol td est_start est_end evt_end = (Inr r, evs)"
  by (simp add: guarded_def split: prod.splits sum.splits)

text \<open>
  C4. The window arithmetic of lines 41 to 43 stands before the \<open>try\<close>: for the earliest
  timestamp, \<open>trade_date - timedelta(days=200)\<close> leaves the range of timestamps and the
  exception leaves \<open>calculate_car\<close>.
\<close>

theorem calculate_car_raises_at_earliest_timestamp:
  "calculate_car download benchmark (Str ''AAPL'') (Some ts_min) 30 = (Inl OutOfBoundsDatetime, [])"
  by (simp add: calculate_car_def placeholders_def event_windows_def ts_add_def ts_min_def
      ts_max_def ns_per_day_def)

end
